theory Spec2Isabelle
  imports Complex_Main "HOL-Library.AList"
begin

section \<open>The bouncing-ball display nodes (hw/task\_6\_bouncing\_ball/mosquito/main.py)\<close>

text \<open>
  Every node runs the same program. It records heartbeats of its peers in the dictionary
  \<open>active_picos\<close>, removes the entries that timed out, takes the smallest live id as the
  leader and, when it is the leader itself, advances the ball and publishes the new state.
  Every node draws the column slice of the canvas that its position in \<open>order\<close> assigns.

  Node ids and coordinates are Python integers (unbounded), modelled as \<open>int\<close>. Clock
  readings of \<open>time.time()\<close> are modelled as \<open>real\<close>, so the subtraction and the
  comparison with the timeout are exact. A dictionary is an association list with distinct
  keys in insertion order; a two-element list such as \<open>[x, y]\<close> is a pair.

  Recording and pruning are modelled for any type of keys. The election, the physics step
  and the drawing are modelled on the shape of state that the program itself produces:
  integer ids (the values of \<open>MY_ID\<close>) and a ball state with integer entries. The
  callback is modelled on the parsed JSON value, since it stores what arrives without
  looking at its shape.
\<close>

subsection \<open>Configuration\<close>

definition SCREEN_HEIGHT :: int where
  "SCREEN_HEIGHT = 16"

definition SCREEN_WIDTH :: int where
  "SCREEN_WIDTH = 8"

definition PICO_TIMEOUT_S :: real where
  "PICO_TIMEOUT_S = 3.5"

definition TOPIC_HEARTBEAT :: string where
  "TOPIC_HEARTBEAT = ''pico/heartbeat''"

definition TOPIC_BALL_POS :: string where
  "TOPIC_BALL_POS = ''pico/ball_pos''"

subsection \<open>Exceptions\<close>

text \<open>The Python exceptions that the modelled statements can raise.\<close>

datatype py_error = UnicodeError | ValueError | AttributeError | TypeError | KeyError
  | IndexError

subsection \<open>The membership table\<close>

text \<open>
  Line 78, \<open>active_picos[pico_id] = time.time()\<close>: a key that is present keeps its
  place and gets the new timestamp, a new key goes to the end.
\<close>

definition record_heartbeat :: "'k \<Rightarrow> real \<Rightarrow> ('k \<times> real) list \<Rightarrow> ('k \<times> real) list" where
  "record_heartbeat pico_id now active_picos = AList.update pico_id now active_picos"

text \<open>
  The loop of \<open>prune_picos\<close> over the snapshot \<open>list(active_picos.keys())\<close>. The
  subscript \<open>active_picos[pico_id]\<close> raises \<open>KeyError\<close> on a key that is gone.
  The message printed for a removed id is left out.
\<close>

fun prune_loop :: "real \<Rightarrow> 'k list \<Rightarrow> ('k \<times> real) list \<Rightarrow> py_error + ('k \<times> real) list" where
  "prune_loop now [] active_picos = Inr active_picos"
| "prune_loop now (pico_id # ids) active_picos =
     (case map_of active_picos pico_id of
        None \<Rightarrow> Inl KeyError
      | Some t \<Rightarrow>
          prune_loop now ids
            (if now - t > PICO_TIMEOUT_S then AList.delete pico_id active_picos
             else active_picos))"

definition prune_picos :: "real \<Rightarrow> ('k \<times> real) list \<Rightarrow> py_error + ('k \<times> real) list" where
  "prune_picos now active_picos = prune_loop now (map fst active_picos) active_picos"

text \<open>
  A run of heartbeats \<open>(id, time of receipt)\<close>, recorded one after the other into a
  table, and the timestamp of the heartbeat of a node that was recorded last.
\<close>

definition record_heartbeats :: "('k \<times> real) list \<Rightarrow> ('k \<times> real) list \<Rightarrow> ('k \<times> real) list" where
  "record_heartbeats hbs active_picos =
     foldl (\<lambda>tab (pico_id, now). record_heartbeat pico_id now tab) active_picos hbs"

definition last_heartbeat :: "('k \<times> real) list \<Rightarrow> 'k \<Rightarrow> real option" where
  "last_heartbeat hbs pico_id = map_of (rev hbs) pico_id"

subsection \<open>Leader election\<close>

text \<open>
  Line 257, \<open>main_pico_id = active_ids[0]\<close>, on the sorted ids. The subscript raises
  \<open>IndexError\<close> on the empty list.
\<close>

definition elect :: "int list \<Rightarrow> py_error + int" where
  "elect active_ids = (case active_ids of [] \<Rightarrow> Inl IndexError | main_pico_id # _ \<Rightarrow> Inr main_pico_id)"

text \<open>
  Step 4 of the loop in \<open>run\<close> (lines 252 to 258). With an empty table the pass ends
  with \<open>continue\<close> (\<open>Inr None\<close>); otherwise the result is the leader and the new value
  of \<open>i_am_main\<close>. The table itself is only read.
\<close>

definition leader_election :: "int \<Rightarrow> (int \<times> real) list \<Rightarrow> py_error + (int \<times> bool) option" where
  "leader_election MY_ID active_picos =
     (if active_picos = [] then Inr None
      else
        let active_ids = sort (map fst active_picos) in
        case elect active_ids of
          Inl e \<Rightarrow> Inl e
        | Inr main_pico_id \<Rightarrow> Inr (Some (main_pico_id, MY_ID = main_pico_id)))"

subsection \<open>The shared ball state\<close>

text \<open>
  The dictionary \<open>current_ball_state\<close> with its four keys. \<open>total_size\<close> is
  \<open>[height, width]\<close>, \<open>pos\<close> is \<open>[x, y]\<close> and \<open>vel\<close> is \<open>[vx, vy]\<close>.
\<close>

record ball_state =
  pos :: "int \<times> int"
  vel :: "int \<times> int"
  total_size :: "int \<times> int"
  order :: "int list"

text \<open>The value the module starts with, on the node configured as \<open>MY_ID\<close>.\<close>

definition initial_ball_state :: "int \<Rightarrow> ball_state" where
  "initial_ball_state MY_ID =
     \<lparr>pos = (0, 0), vel = (1, 1), total_size = (SCREEN_HEIGHT, SCREEN_WIDTH), order = [MY_ID]\<rparr>"

subsection \<open>The physics step of the leader\<close>

text \<open>
  Lines 176 to 184 of \<open>main_physics_loop\<close>: the ball moves by \<open>vy\<close>, and the two
  branches of the \<open>if\<close>/\<open>elif\<close> put it on row 0 or on the last row and negate \<open>vy\<close>.
  The result is the new \<open>(y, vy)\<close>.
\<close>

definition bounce_y :: "int \<Rightarrow> int \<Rightarrow> int \<Rightarrow> int \<times> int" where
  "bounce_y total_height y vy =
     (let y1 = y + vy in
      if y1 \<le> 0 then (0, - vy)
      else if y1 \<ge> total_height - 1 then (total_height - 1, - vy)
      else (y1, vy))"

text \<open>
  Lines 164 to 192: from the sorted live ids and the last known state to the dictionary
  \<open>new_state\<close>. With no live id the function returns before it computes anything
  (\<open>None\<close>); so the modulus \<open>total_width\<close> is positive wherever it is used.
\<close>

definition tick :: "int list \<Rightarrow> ball_state \<Rightarrow> ball_state option" where
  "tick active_ids st =
     (if active_ids = [] then None
      else
        let total_width = int (length active_ids) * SCREEN_WIDTH;
            total_height = SCREEN_HEIGHT;
            (x, y) = pos st;
            (vx, vy) = vel st;
            x1 = (x + vx) mod total_width;
            (y2, vy2) = bounce_y total_height y vy
        in Some \<lparr>pos = (x1, y2), vel = (vx, vy2),
                  total_size = (total_height, total_width), order = active_ids\<rparr>)"

text \<open>
  The whole of \<open>main_physics_loop\<close>, on the membership table and the cached state.
  \<open>publish_ok\<close> says whether \<open>mqtt_client.publish\<close> returned; when it raises, the
  handler only prints. The result is the state that was published (if any) and the new
  value of \<open>current_ball_state\<close>. The lists \<open>pos\<close> and \<open>vel\<close> are updated in place, so
  the cached state has the new position and velocity also when publishing failed, while
  \<open>total_size\<close> and \<open>order\<close> change only with the assignment after a successful publish.
\<close>

definition main_physics_loop ::
  "bool \<Rightarrow> (int \<times> real) list \<Rightarrow> ball_state \<Rightarrow> ball_state option \<times> ball_state" where
  "main_physics_loop publish_ok active_picos current_ball_state =
     (let active_ids = sort (map fst active_picos) in
      case tick active_ids current_ball_state of
        None \<Rightarrow> (None, current_ball_state)
      | Some new_state \<Rightarrow>
          if publish_ok then (Some new_state, new_state)
          else (None, current_ball_state\<lparr>pos := pos new_state, vel := vel new_state\<rparr>))"

subsection \<open>The slice of a node\<close>

text \<open>\<open>order.index(MY_ID)\<close>: the first position of the value, \<open>ValueError\<close> without one.\<close>

fun py_index :: "'a list \<Rightarrow> 'a \<Rightarrow> py_error + nat" where
  "py_index [] a = Inl ValueError"
| "py_index (x # xs) a =
     (if x = a then Inr 0
      else case py_index xs a of Inl e \<Rightarrow> Inl e | Inr i \<Rightarrow> Inr (Suc i))"

text \<open>
  \<open>update_display\<close>, lines 134 to 151. The result is \<open>None\<close> when the function
  returns without drawing (the node is not in \<open>order\<close>, or an exception was caught and
  printed), and otherwise the arguments \<open>(is_on_my_screen, local_x, global_y)\<close> that it
  hands to \<open>print_terminal_display\<close>.
\<close>

definition update_display :: "int \<Rightarrow> ball_state \<Rightarrow> (bool \<times> int \<times> int) option" where
  "update_display MY_ID ball_state =
     (let ord = order ball_state in
      if MY_ID \<notin> set ord then None
      else
        let (global_x, global_y) = pos ball_state in
        case py_index ord MY_ID of
          Inl e \<Rightarrow> None
        | Inr my_index \<Rightarrow>
            let my_min_col = int my_index * SCREEN_WIDTH;
                my_max_col = (int my_index * SCREEN_WIDTH) + (SCREEN_WIDTH - 1);
                is_on_my_screen = (my_min_col \<le> global_x \<and> global_x \<le> my_max_col);
                local_x = global_x - my_min_col
            in Some (is_on_my_screen, local_x, global_y))"

text \<open>
  \<open>print_terminal_display\<close>: the cell \<open>(row, column)\<close> of the 16 by 8 buffer that
  gets the mark \<open>O\<close>, if any. The coordinates are clamped to the buffer before the
  subscript.
\<close>

definition print_terminal_display :: "bool \<Rightarrow> int \<Rightarrow> int \<Rightarrow> (int \<times> int) option" where
  "print_terminal_display is_on_my_screen local_x global_y =
     (if is_on_my_screen then
        Some (max 0 (min global_y (SCREEN_HEIGHT - 1)), max 0 (min local_x (SCREEN_WIDTH - 1)))
      else None)"

text \<open>
  The projection of the shared state on the slice of node \<open>MY_ID\<close>, read off
  \<open>update_display\<close>: the local coordinates handed to the renderer when the ball is on
  this node's screen, and \<open>None\<close> (nothing visible) otherwise.
\<close>

definition project :: "int \<Rightarrow> ball_state \<Rightarrow> (int \<times> int) option" where
  "project MY_ID ball_state =
     (case update_display MY_ID ball_state of
        None \<Rightarrow> None
      | Some (is_on_my_screen, local_x, global_y) \<Rightarrow>
          if is_on_my_screen then Some (local_x, global_y) else None)"

subsection \<open>Incoming messages\<close>

text \<open>
  The values that \<open>json.loads\<close> returns. A JSON object is a dictionary with string keys;
  floats are idealised as reals.
\<close>

datatype json = JNull | JBool bool | JInt int | JFloat real | JStr string
  | JArr "json list" | JObj "(string \<times> json) list"

text \<open>
  \<open>data.get(key)\<close>: only a dictionary has the method, and a missing key gives
  \<open>None\<close>.
\<close>

definition py_get :: "json \<Rightarrow> string \<Rightarrow> py_error + json" where
  "py_get data key =
     (case data of
        JObj items \<Rightarrow> (case map_of items key of None \<Rightarrow> Inr JNull | Some v \<Rightarrow> Inr v)
      | _ \<Rightarrow> Inl AttributeError)"

text \<open>
  A value used as a dictionary key. Lists and dictionaries are unhashable
  (\<open>TypeError\<close>, here \<open>None\<close>). Python identifies the keys \<open>True\<close>, \<open>1\<close> and \<open>1.0\<close>,
  so booleans and integral floats are stored as the integer they equal.
\<close>

definition dict_key :: "json \<Rightarrow> json option" where
  "dict_key v =
     (case v of
        JBool b \<Rightarrow> Some (JInt (if b then 1 else 0))
      | JFloat r \<Rightarrow> Some (if r = of_int \<lfloor>r\<rfloor> then JInt \<lfloor>r\<rfloor> else JFloat r)
      | JArr _ \<Rightarrow> None
      | JObj _ \<Rightarrow> None
      | _ \<Rightarrow> Some v)"

text \<open>
  What the callback reads and writes: the membership table as it is filled from the
  payloads (keyed by whatever hashable value a heartbeat carried), the cached state as it
  arrived, and the lines printed by the exception handler.
\<close>

datatype console_line = Error_in_MQTT_callback py_error

record node =
  active_picos :: "(json \<times> real) list"
  current_ball_state :: json
  console :: "console_line list"

text \<open>
  The body of the \<open>try\<close> in \<open>mqtt_callback\<close> (lines 73 to 82). \<open>decode\<close> stands for
  \<open>bytes.decode('utf-8')\<close> and \<open>loads\<close> for \<open>json.loads\<close>, both \<open>None\<close> where the
  library raises; \<open>now\<close> is the reading of \<open>time.time()\<close> on line 78.
\<close>

definition mqtt_callback_try ::
  "(string \<Rightarrow> string option) \<Rightarrow> (string \<Rightarrow> json option) \<Rightarrow> real \<Rightarrow> string \<Rightarrow> string \<Rightarrow> node
     \<Rightarrow> py_error + node" where
  "mqtt_callback_try decode loads now topic_str msg n =
     (case decode msg of
        None \<Rightarrow> Inl UnicodeError
      | Some payload \<Rightarrow>
          (case loads payload of
             None \<Rightarrow> Inl ValueError
           | Some data \<Rightarrow>
               if topic_str = TOPIC_HEARTBEAT then
                 (case py_get data ''id'' of
                    Inl e \<Rightarrow> Inl e
                  | Inr pico_id \<Rightarrow>
                      if pico_id \<noteq> JNull then
                        (case dict_key pico_id of
                           None \<Rightarrow> Inl TypeError
                         | Some k \<Rightarrow>
                             Inr (n\<lparr>active_picos := record_heartbeat k now (active_picos n)\<rparr>))
                      else Inr n)
               else if topic_str = TOPIC_BALL_POS then Inr (n\<lparr>current_ball_state := data\<rparr>)
               else Inr n))"

text \<open>
  \<open>mqtt_callback\<close>. The topic is decoded before the \<open>try\<close>, so a failure there
  leaves the function as an exception (\<open>Inl\<close>); every exception of the body is caught
  and printed.
\<close>

definition mqtt_callback ::
  "(string \<Rightarrow> string option) \<Rightarrow> (string \<Rightarrow> json option) \<Rightarrow> real \<Rightarrow> string \<Rightarrow> string \<Rightarrow> node
     \<Rightarrow> py_error + node" where
  "mqtt_callback decode loads now topic msg n =
     (case decode topic of
        None \<Rightarrow> Inl UnicodeError
      | Some topic_str \<Rightarrow>
          (case mqtt_callback_try decode loads now topic_str msg n of
             Inl e \<Rightarrow> Inr (n\<lparr>console := console n @ [Error_in_MQTT_callback e]\<rparr>)
           | Inr n' \<Rightarrow> Inr n'))"

section \<open>Properties\<close>

subsection \<open>One tick of the leader\<close>


lemma tick_Some:
  assumes "active_ids \<noteq> []" and "pos st = (x, y)" and "vel st = (vx, vy)"
  shows "tick active_ids st =
    Some \<lparr>pos = ((x + vx) mod (int (length active_ids) * SCREEN_WIDTH),
                 fst (bounce_y SCREEN_HEIGHT y vy)),
          vel = (vx, snd (bounce_y SCREEN_HEIGHT y vy)),
          total_size = (SCREEN_HEIGHT, int (length active_ids) * SCREEN_WIDTH),
          order = active_ids\<rparr>"
  using assms by (simp add: tick_def Let_def split_beta)



text \<open>
  Claim C1, as the code has it. With a live id, one tick handles the vertical axis so:
  if \<open>y + vy \<le> 0\<close> the new \<open>y\<close> is 0 and \<open>vy\<close> is negated; if
  \<open>y + vy \<ge> height - 1\<close> the new \<open>y\<close> is \<open>height - 1\<close> and \<open>vy\<close> is negated; and if
  \<open>y + vy\<close> lies strictly between the two rows, \<open>y\<close> advances to \<open>y + vy\<close> and
  \<open>vy\<close> is unchanged. So the ball also turns round when it lands exactly on row 0 or on
  the last row.
\<close>

theorem tick_vertical_bounce:
  assumes "active_ids \<noteq> []" and "pos st = (x, y)" and "vel st = (vx, vy)"
  shows "\<exists>st'. tick active_ids st = Some st' \<and>
    (y + vy \<le> 0 \<longrightarrow> snd (pos st') = 0 \<and> snd (vel st') = - vy) \<and>
    (SCREEN_HEIGHT - 1 \<le> y + vy \<longrightarrow>
       snd (pos st') = SCREEN_HEIGHT - 1 \<and> snd (vel st') = - vy) \<and>
    (0 < y + vy \<and> y + vy < SCREEN_HEIGHT - 1 \<longrightarrow>
       snd (pos st') = y + vy \<and> snd (vel st') = vy)"
  using tick_Some [OF assms] by (simp add: bounce_y_def Let_def SCREEN_HEIGHT_def)

text \<open>
  The example of the claim: height 16, \<open>y = 15\<close>, \<open>vy = 1\<close> gives \<open>y = 15\<close> and
  \<open>vy = -1\<close>; the next tick from \<open>y = 15\<close>, \<open>vy = -1\<close> gives \<open>y = 14\<close>, \<open>vy = -1\<close>.
\<close>

theorem tick_vertical_bounce_witness:
  "(\<exists>st'. tick [0, 1] \<lparr>pos = (3, 15), vel = (1, 1), total_size = (16, 16), order = [0, 1]\<rparr>
            = Some st' \<and> snd (pos st') = 15 \<and> snd (vel st') = - 1) \<and>
   (\<exists>st'. tick [0, 1] \<lparr>pos = (4, 15), vel = (1, - 1), total_size = (16, 16), order = [0, 1]\<rparr>
            = Some st' \<and> snd (pos st') = 14 \<and> snd (vel st') = - 1)"
  using tick_vertical_bounce [of "[0, 1]"
          "\<lparr>pos = (3, 15), vel = (1, 1), total_size = (16, 16), order = [0, 1]\<rparr>" 3 15 1 1]
        tick_vertical_bounce [of "[0, 1]"
          "\<lparr>pos = (4, 15), vel = (1, - 1), total_size = (16, 16), order = [0, 1]\<rparr>" 4 15 1 "- 1"]
  by (simp add: SCREEN_HEIGHT_def)

text \<open>
  The claim as it is written fails where \<open>y + vy\<close> lands on a bound without leaving
  \<open>[0, height - 1]\<close>: from \<open>y = 1\<close>, \<open>vy = -1\<close> the sum is 0, the claim keeps
  \<open>vy = -1\<close>, and the code returns \<open>vy = 1\<close>.
\<close>

theorem tick_vertical_reflect_counterexample:
  "0 \<le> (1::int) + (- 1) \<and> (1::int) + (- 1) \<le> SCREEN_HEIGHT - 1 \<and>
   tick [0] \<lparr>pos = (0, 1), vel = (1, - 1), total_size = (16, 8), order = [0]\<rparr> =
     Some \<lparr>pos = (1, 0), vel = (1, 1), total_size = (16, 8), order = [0]\<rparr> \<and>
   snd (vel \<lparr>pos = (1, 0), vel = (1, 1), total_size = (16, 8), order = [0::int]\<rparr>) \<noteq> - 1"
  by (simp add: tick_def bounce_y_def Let_def SCREEN_HEIGHT_def SCREEN_WIDTH_def)

text \<open>
  Claim C4. With \<open>n\<close> live ids, \<open>n > 0\<close>, one tick sets the new \<open>x\<close> to
  \<open>(x + vx) mod (SCREEN_WIDTH * n)\<close>. The horizontal velocity is kept (no reflection),
  and the new \<open>y\<close> and \<open>vy\<close> are the result of the vertical step on \<open>y\<close> and \<open>vy\<close>
  alone, whatever \<open>x\<close>, \<open>vx\<close> and the width are.
\<close>

theorem tick_horizontal_wrap:
  assumes "active_ids \<noteq> []" and "pos st = (x, y)" and "vel st = (vx, vy)"
  shows "\<exists>st'. tick active_ids st = Some st' \<and>
    fst (pos st') = (x + vx) mod (SCREEN_WIDTH * int (length active_ids)) \<and>
    fst (vel st') = vx \<and>
    (snd (pos st'), snd (vel st')) = bounce_y SCREEN_HEIGHT y vy"
  using tick_Some [OF assms] by (simp add: mult.commute)

text \<open>
  The example of the claim: slice width 8, two live nodes, \<open>x = 15\<close>, \<open>vx = 1\<close> gives
  \<open>x = 0\<close>; the vertical velocity stays 1.
\<close>

theorem tick_horizontal_wrap_witness:
  "\<exists>st'. tick [0, 1] \<lparr>pos = (15, 5), vel = (1, 1), total_size = (16, 16), order = [0, 1]\<rparr>
            = Some st' \<and> fst (pos st') = 0 \<and> fst (vel st') = 1 \<and>
            (snd (pos st'), snd (vel st')) = (6, 1)"
  using tick_horizontal_wrap [of "[0, 1]"
          "\<lparr>pos = (15, 5), vel = (1, 1), total_size = (16, 16), order = [0, 1]\<rparr>" 15 5 1 1]
  by (simp add: SCREEN_WIDTH_def SCREEN_HEIGHT_def bounce_y_def Let_def)






subsection \<open>Membership\<close>

lemma prune_loop_filter:
  assumes "distinct ks" and "set ks \<subseteq> fst ` set tab" and "distinct (map fst tab)"
  shows "prune_loop now ks tab =
           Inr (filter (\<lambda>(k, t). \<not> (k \<in> set ks \<and> now - t > PICO_TIMEOUT_S)) tab)"
  using assms
proof (induction ks arbitrary: tab)
  case Nil
  then show ?case by simp
next
  case (Cons k ks)
  from Cons.prems obtain t where kt: "(k, t) \<in> set tab" by auto
  with Cons.prems have look: "map_of tab k = Some t" by simp
  have uniq: "\<And>t'. (k, t') \<in> set tab \<Longrightarrow> t' = t"
    using Cons.prems(3) kt by (meson eq_key_imp_eq_value)
  show ?case
  proof (cases "now - t > PICO_TIMEOUT_S")
    case True
    have sub: "set ks \<subseteq> fst ` set (AList.delete k tab)"
    proof
      fix x assume x: "x \<in> set ks"
      with Cons.prems(1) have "x \<noteq> k" by auto
      moreover from x Cons.prems(2) obtain b where "(x, b) \<in> set tab" by auto
      ultimately have "(x, b) \<in> set (AList.delete k tab)" by (simp add: AList.delete_eq)
      then show "x \<in> fst ` set (AList.delete k tab)" by force
    qed
    have dis: "distinct (map fst (AList.delete k tab))"
      using Cons.prems(3) by (rule AList.distinct_delete)
    have "prune_loop now (k # ks) tab = prune_loop now ks (AList.delete k tab)"
      using look True by simp
    also have "\<dots> = Inr (filter (\<lambda>(k', t'). \<not> (k' \<in> set ks \<and> now - t' > PICO_TIMEOUT_S))
                          (AList.delete k tab))"
      using Cons.prems(1) sub dis by (intro Cons.IH) simp_all
    also have "filter (\<lambda>(k', t'). \<not> (k' \<in> set ks \<and> now - t' > PICO_TIMEOUT_S))
                 (AList.delete k tab) =
               filter (\<lambda>(k', t'). \<not> (k' \<in> set (k # ks) \<and> now - t' > PICO_TIMEOUT_S)) tab"
      unfolding AList.delete_eq filter_filter
      using True uniq by (intro filter_cong) auto
    finally show ?thesis .
  next
    case False
    have "prune_loop now (k # ks) tab = prune_loop now ks tab"
      using look False by simp
    also have "\<dots> = Inr (filter (\<lambda>(k', t'). \<not> (k' \<in> set ks \<and> now - t' > PICO_TIMEOUT_S)) tab)"
      using Cons.prems by (intro Cons.IH) auto
    also have "filter (\<lambda>(k', t'). \<not> (k' \<in> set ks \<and> now - t' > PICO_TIMEOUT_S)) tab =
               filter (\<lambda>(k', t'). \<not> (k' \<in> set (k # ks) \<and> now - t' > PICO_TIMEOUT_S)) tab"
      using False uniq by (intro filter_cong) auto
    finally show ?thesis .
  qed
qed

lemma prune_picos_filter:
  assumes "distinct (map fst tab)"
  shows "prune_picos now tab = Inr (filter (\<lambda>(k, t). now - t \<le> PICO_TIMEOUT_S) tab)"
proof -
  have "prune_picos now tab =
          Inr (filter (\<lambda>(k, t). \<not> (k \<in> set (map fst tab) \<and> now - t > PICO_TIMEOUT_S)) tab)"
    unfolding prune_picos_def using assms by (intro prune_loop_filter) auto
  also have "filter (\<lambda>(k, t). \<not> (k \<in> set (map fst tab) \<and> now - t > PICO_TIMEOUT_S)) tab =
             filter (\<lambda>(k, t). now - t \<le> PICO_TIMEOUT_S) tab"
    by (intro filter_cong) (auto simp: image_iff)
  finally show ?thesis .
qed

lemma distinct_record_heartbeats:
  "distinct (map fst tab) \<Longrightarrow> distinct (map fst (record_heartbeats hbs tab))"
  unfolding record_heartbeats_def
  by (induction hbs arbitrary: tab) (auto simp: record_heartbeat_def AList.distinct_update)

lemma map_of_record_heartbeats:
  "map_of (record_heartbeats hbs tab) k =
     (case last_heartbeat hbs k of Some t \<Rightarrow> Some t | None \<Rightarrow> map_of tab k)"
  unfolding record_heartbeats_def last_heartbeat_def
  by (induction hbs arbitrary: tab)
     (auto simp: record_heartbeat_def AList.update_conv' map_add_def split: option.splits)

text \<open>
  Claim C2. Heartbeats are recorded into the empty table, then the table is pruned at
  \<open>now\<close>. Pruning returns (no \<open>KeyError\<close>), and an id is in the pruned table exactly
  when it has a heartbeat and the last one recorded for it is at most
  \<open>PICO_TIMEOUT_S\<close> old: no id whose last heartbeat is older stays, and every id whose
  last heartbeat is within the timeout stays. With heartbeats of 0, 1, 2 at time 0 and
  pruning at time 4 the table is empty.
\<close>

theorem prune_after_heartbeats:
  "(\<exists>live. prune_picos now (record_heartbeats hbs []) = Inr live \<and>
     (\<forall>pico_id. pico_id \<in> set (map fst live) \<longleftrightarrow>
        (\<exists>t. last_heartbeat hbs pico_id = Some t \<and> now - t \<le> PICO_TIMEOUT_S))) \<and>
   prune_picos 4 (record_heartbeats [(0::int, 0), (1, 0), (2, 0)] []) = Inr []"
proof -
  let ?tab = "record_heartbeats hbs []"
  let ?live = "filter (\<lambda>(k, t). now - t \<le> PICO_TIMEOUT_S) ?tab"
  have dis: "distinct (map fst ?tab)" by (rule distinct_record_heartbeats) simp
  then have pr: "prune_picos now ?tab = Inr ?live" by (rule prune_picos_filter)
  have "pico_id \<in> set (map fst ?live) \<longleftrightarrow>
          (\<exists>t. last_heartbeat hbs pico_id = Some t \<and> now - t \<le> PICO_TIMEOUT_S)" for pico_id
  proof -
    have "pico_id \<in> set (map fst ?live) \<longleftrightarrow>
            (\<exists>t. (pico_id, t) \<in> set ?tab \<and> now - t \<le> PICO_TIMEOUT_S)"
      by (auto simp: image_iff)
    also have "\<dots> \<longleftrightarrow> (\<exists>t. map_of ?tab pico_id = Some t \<and> now - t \<le> PICO_TIMEOUT_S)"
      using dis by simp
    also have "\<dots> \<longleftrightarrow> (\<exists>t. last_heartbeat hbs pico_id = Some t \<and> now - t \<le> PICO_TIMEOUT_S)"
      by (simp add: map_of_record_heartbeats split: option.splits)
    finally show ?thesis .
  qed
  with pr have general: "\<exists>live. prune_picos now ?tab = Inr live \<and>
     (\<forall>pico_id. pico_id \<in> set (map fst live) \<longleftrightarrow>
        (\<exists>t. last_heartbeat hbs pico_id = Some t \<and> now - t \<le> PICO_TIMEOUT_S))"
    by blast
  have example: "prune_picos 4 (record_heartbeats [(0::int, 0), (1, 0), (2, 0)] []) = Inr []"
    by (simp add: prune_picos_def record_heartbeats_def record_heartbeat_def PICO_TIMEOUT_S_def)
  from general example show ?thesis by (rule conjI)
qed

theorem prune_after_heartbeats_witness:
  "\<exists>live. prune_picos 5 (record_heartbeats [(0::int, 0), (1, 1), (0, 2)] []) = Inr live \<and>
     0 \<in> set (map fst live) \<and> 1 \<notin> set (map fst live) \<and> 2 \<notin> set (map fst live)"
proof -
  from prune_after_heartbeats [of 5 "[(0::int, 0), (1, 1), (0, 2)]", THEN conjunct1]
  obtain live where pr: "prune_picos 5 (record_heartbeats [(0::int, 0), (1, 1), (0, 2)] []) = Inr live"
    and iff: "\<And>pico_id. pico_id \<in> set (map fst live) \<longleftrightarrow>
        (\<exists>t. last_heartbeat [(0::int, 0), (1, 1), (0, 2)] pico_id = Some t \<and> 5 - t \<le> PICO_TIMEOUT_S)"
    by blast
  have "0 \<in> set (map fst live)"
    unfolding iff by (simp add: last_heartbeat_def PICO_TIMEOUT_S_def)
  moreover have "1 \<notin> set (map fst live)"
    unfolding iff by (simp add: last_heartbeat_def PICO_TIMEOUT_S_def)
  moreover have "2 \<notin> set (map fst live)"
    unfolding iff by (simp add: last_heartbeat_def PICO_TIMEOUT_S_def)
  ultimately show ?thesis using pr by blast
qed

lemma main_physics_loop_emitted:
  assumes "main_physics_loop publish_ok tab cur = (Some st', cur')"
  shows "tab \<noteq> [] \<and> tick (sort (map fst tab)) cur = Some st' \<and> cur' = st'"
proof -
  have "tick (sort (map fst tab)) cur = Some st' \<and> cur' = st'"
    using assms by (auto simp: main_physics_loop_def Let_def split: option.splits if_splits)
  moreover from this have "tab \<noteq> []" by (auto simp: tick_def)
  ultimately show ?thesis by simp
qed

text \<open>
  Claim C6. A state that \<open>main_physics_loop\<close> publishes has as \<open>order\<close> the sorted
  keys of the membership table at that moment: sorted, with exactly the ids of the table,
  each once. Its \<open>total_size\<close> is the fixed height and \<open>SCREEN_WIDTH\<close> times the
  number of entries. When the table is what \<open>prune_picos\<close> left at time \<open>now\<close>, the ids
  of \<open>order\<close> are exactly those whose timestamp is at most \<open>PICO_TIMEOUT_S\<close> old.
\<close>

theorem emitted_order_and_size:
  assumes "main_physics_loop publish_ok tab cur = (Some st', cur')"
  shows "order st' = sort (map fst tab) \<and> sorted (order st') \<and>
         set (order st') = fst ` set tab \<and>
         total_size st' = (SCREEN_HEIGHT, SCREEN_WIDTH * int (length tab)) \<and>
         (distinct (map fst tab) \<longrightarrow>
            distinct (order st') \<and> length (order st') = card (fst ` set tab)) \<and>
         (\<forall>now tab0. distinct (map fst tab0) \<and> prune_picos now tab0 = Inr tab \<longrightarrow>
            set (order st') = {k. \<exists>t. (k, t) \<in> set tab0 \<and> now - t \<le> PICO_TIMEOUT_S})"
proof -
  from main_physics_loop_emitted [OF assms]
  have ne: "sort (map fst tab) \<noteq> []" and t: "tick (sort (map fst tab)) cur = Some st'"
    by (auto simp: tick_def)
  obtain x y where p: "pos cur = (x, y)" by (cases "pos cur")
  obtain vx vy where v: "vel cur = (vx, vy)" by (cases "vel cur")
  from tick_Some [OF ne p v] t
  have ord: "order st' = sort (map fst tab)"
    and size: "total_size st' = (SCREEN_HEIGHT, SCREEN_WIDTH * int (length tab))"
    by (auto simp: mult.commute)
  have live: "set (order st') = {k. \<exists>t. (k, t) \<in> set tab0 \<and> now - t \<le> PICO_TIMEOUT_S}"
    if "distinct (map fst tab0) \<and> prune_picos now tab0 = Inr tab" for now tab0
  proof -
    from that have "distinct (map fst tab0)" and pr: "prune_picos now tab0 = Inr tab"
      by simp_all
    from prune_picos_filter [OF this(1), of now] pr
    have "tab = filter (\<lambda>(k, t). now - t \<le> PICO_TIMEOUT_S) tab0"
      by simp
    then show ?thesis by (auto simp: ord image_iff)
  qed
  have dis: "distinct (order st') \<and> length (order st') = card (fst ` set tab)"
    if "distinct (map fst tab)"
    using that distinct_card [of "map fst tab"] by (simp add: ord)
  from ord size live dis show ?thesis by simp
qed

theorem emitted_order_and_size_witness:
  "main_physics_loop True [(2, 7), (0, 8)] (initial_ball_state 0) =
     (Some \<lparr>pos = (1, 1), vel = (1, 1), total_size = (16, 16), order = [0, 2]\<rparr>,
      \<lparr>pos = (1, 1), vel = (1, 1), total_size = (16, 16), order = [0, 2]\<rparr>) \<and>
   prune_picos 9 [(1::int, 5), (2, 7), (0, 8)] = Inr [(2, 7), (0, 8)] \<and>
   set [0, 2] = {k. \<exists>t::real. (k, t) \<in> set [(1::int, 5), (2, 7), (0, 8)] \<and> 9 - t \<le> PICO_TIMEOUT_S}"
proof -
  let ?st = "\<lparr>pos = (1, 1), vel = (1, 1), total_size = (16, 16), order = [0, 2]\<rparr>"
  have run: "main_physics_loop True [(2, 7), (0, 8)] (initial_ball_state 0) = (Some ?st, ?st)"
    by (simp add: main_physics_loop_def tick_def bounce_y_def initial_ball_state_def Let_def
        SCREEN_HEIGHT_def SCREEN_WIDTH_def)
  have pr: "prune_picos 9 [(1::int, 5), (2, 7), (0, 8)] = Inr [(2, 7), (0, 8)]"
    by (simp add: prune_picos_def PICO_TIMEOUT_S_def)
  have dis: "distinct (map fst [(1::int, 5::real), (2, 7), (0, 8)])" by simp
  from emitted_order_and_size [OF run]
  have live: "\<forall>now tab0. distinct (map fst tab0) \<and> prune_picos now tab0 = Inr [(2, 7), (0, 8)] \<longrightarrow>
            set (order ?st) = {k. \<exists>t. (k, t) \<in> set tab0 \<and> now - t \<le> PICO_TIMEOUT_S}"
    by (elim conjE)
  have "set (order ?st) =
          {k. \<exists>t::real. (k, t) \<in> set [(1::int, 5), (2, 7), (0, 8)] \<and> 9 - t \<le> PICO_TIMEOUT_S}"
    by (rule live [rule_format, OF conjI [OF dis pr]])
  with run pr show ?thesis by simp
qed

subsection \<open>Leader election\<close>

lemma elect_sorted:
  assumes "active_ids \<noteq> []" and "sorted active_ids"
  shows "elect active_ids = Inr (Min (set active_ids))"
proof (cases active_ids)
  case Nil
  with assms show ?thesis by simp
next
  case (Cons x xs)
  with assms(2) have "\<forall>y\<in>set xs. x \<le> y" by simp
  then have "Min (set (x # xs)) = x" by (intro Min_eqI) auto
  with Cons show ?thesis by (simp add: elect_def)
qed

lemma leader_election_Min:
  assumes "tab \<noteq> []"
  shows "leader_election me tab =
           Inr (Some (Min (fst ` set tab), me = Min (fst ` set tab)))"
proof -
  have "sort (map fst tab) \<noteq> []" using assms by (metis length_sort length_map length_0_conv)
  then have "elect (sort (map fst tab)) = Inr (Min (set (sort (map fst tab))))"
    by (rule elect_sorted) simp
  then show ?thesis using assms by (simp add: leader_election_def)
qed

text \<open>
  Claim C3. On a non-empty sorted list of ids \<open>elect\<close> returns the minimum; on
  \<open>[0, 1, 2]\<close> it returns 0 and on \<open>[1, 2]\<close> it returns 1. On a non-empty table the
  election of the loop returns the smallest key, and after the leader's entry is deleted
  the next election returns the smallest of the remaining keys. The election is a
  function of the table and leaves it as it is.
\<close>

theorem elect_minimum:
  "(active_ids \<noteq> [] \<and> sorted active_ids \<longrightarrow> elect active_ids = Inr (Min (set active_ids))) \<and>
   elect [0, 1, 2] = Inr 0 \<and> elect [1, 2] = Inr 1 \<and>
   (tab \<noteq> [] \<longrightarrow>
      leader_election me tab = Inr (Some (Min (fst ` set tab), me = Min (fst ` set tab)))) \<and>
   (leader_election me tab = Inr (Some (leader, b)) \<and> AList.delete leader tab \<noteq> [] \<longrightarrow>
      leader_election me (AList.delete leader tab) =
        Inr (Some (Min (fst ` set tab - {leader}), me = Min (fst ` set tab - {leader}))))"
proof -
  have keys: "fst ` set (AList.delete leader tab) = fst ` set tab - {leader}"
    by (auto simp: AList.delete_eq image_iff)
  show ?thesis
    using elect_sorted [of active_ids] leader_election_Min [of tab me]
      leader_election_Min [of "AList.delete leader tab" me]
    by (simp add: keys elect_def)
qed

theorem elect_minimum_witness:
  "leader_election 1 [(2, 10), (0, 11), (1, 12)] = Inr (Some (0, False)) \<and>
   leader_election 1 (AList.delete 0 [(2, 10), (0, 11), (1, 12)]) = Inr (Some (1, True))"
proof -
  have "{2, 0, 1} - {0} = {2, 1::int}" by auto
  then have "Min ({2, 0, 1} - {0::int}) = 1" by simp
  then show ?thesis
    using elect_minimum [of "[0, 1, 2]" "[(2, 10), (0, 11), (1, 12)]" 1 0 False]
    by simp
qed

subsection \<open>Projection on a slice\<close>

lemma py_index_Inr:
  "py_index xs a = Inr i \<longleftrightarrow> i < length xs \<and> xs ! i = a \<and> (\<forall>j<i. xs ! j \<noteq> a)"
proof (induction xs arbitrary: i)
  case Nil
  then show ?case by simp
next
  case (Cons x xs)
  show ?case
  proof (cases "x = a")
    case True
    then show ?thesis by (cases i) auto
  next
    case False
    show ?thesis
    proof (cases i)
      case 0
      with False show ?thesis by (auto split: sum.splits)
    next
      case (Suc i')
      have "(\<forall>j<Suc i'. (x # xs) ! j \<noteq> a) \<longleftrightarrow> (\<forall>j<i'. xs ! j \<noteq> a)"
        using False by (auto simp: less_Suc_eq_0_disj)
      with False Suc Cons.IH [of i'] show ?thesis by (auto split: sum.splits)
    qed
  qed
qed

lemma py_index_Inl: "py_index xs a = Inl e \<longleftrightarrow> a \<notin> set xs \<and> e = ValueError"
  by (induction xs) (auto split: sum.splits)

text \<open>
  Claim C5. Nothing is visible on node \<open>MY_ID\<close> when it is not in \<open>order\<close>. When it
  is, with \<open>i\<close> its (first) index in \<open>order\<close>, nothing is visible exactly when the
  global \<open>x\<close> is outside \<open>[i * SCREEN_WIDTH, i * SCREEN_WIDTH + SCREEN_WIDTH - 1]\<close>, and
  otherwise the local coordinates are \<open>x - i * SCREEN_WIDTH\<close> and the global \<open>y\<close>
  unchanged.
\<close>

theorem project_slice:
  assumes "pos st = (global_x, global_y)"
  shows "(me \<notin> set (order st) \<longrightarrow> project me st = None) \<and>
    (\<forall>i. i < length (order st) \<and> order st ! i = me \<and> (\<forall>j<i. order st ! j \<noteq> me) \<longrightarrow>
       project me st =
         (if int i * SCREEN_WIDTH \<le> global_x \<and> global_x \<le> int i * SCREEN_WIDTH + SCREEN_WIDTH - 1
          then Some (global_x - int i * SCREEN_WIDTH, global_y) else None))"
proof (intro conjI allI impI)
  assume "me \<notin> set (order st)"
  then show "project me st = None" by (simp add: project_def update_display_def)
next
  fix i
  assume i: "i < length (order st) \<and> order st ! i = me \<and> (\<forall>j<i. order st ! j \<noteq> me)"
  then have idx: "py_index (order st) me = Inr i" by (simp add: py_index_Inr)
  from i have mem: "me \<in> set (order st)" by (metis nth_mem)
  show "project me st =
         (if int i * SCREEN_WIDTH \<le> global_x \<and> global_x \<le> int i * SCREEN_WIDTH + SCREEN_WIDTH - 1
          then Some (global_x - int i * SCREEN_WIDTH, global_y) else None)"
    using assms idx mem by (simp add: project_def update_display_def Let_def)
qed

text \<open>
  The example of the claim: \<open>order = [0, 1, 2]\<close> and \<open>x = 10\<close>; node 1 sees the ball at
  local \<open>x = 2\<close>, node 2 sees nothing, and neither does a node that is not in \<open>order\<close>.
\<close>

theorem project_slice_witness:
  "project 1 \<lparr>pos = (10, 4), vel = (1, 1), total_size = (16, 24), order = [0, 1, 2]\<rparr> = Some (2, 4) \<and>
   project 2 \<lparr>pos = (10, 4), vel = (1, 1), total_size = (16, 24), order = [0, 1, 2]\<rparr> = None \<and>
   project 3 \<lparr>pos = (10, 4), vel = (1, 1), total_size = (16, 24), order = [0, 1, 2]\<rparr> = None"
proof -
  let ?st = "\<lparr>pos = (10, 4), vel = (1, 1), total_size = (16, 24), order = [0, 1, 2]\<rparr>"
  have p: "pos ?st = (10, 4)" by simp
  have a: "project 1 ?st = Some (2, 4)"
    using project_slice [OF p, of 1, THEN conjunct2, THEN spec, of 1]
    by (simp add: SCREEN_WIDTH_def)
  have b: "project 2 ?st = None"
    using project_slice [OF p, of 2, THEN conjunct2, THEN spec, of 2]
    by (simp add: SCREEN_WIDTH_def less_Suc_eq_0_disj numeral_2_eq_2)
  have c: "project 3 ?st = None"
    using project_slice [OF p, of 3, THEN conjunct1] by simp
  from a b c show ?thesis by simp
qed

text \<open>
  For a visible ball on the canvas the clamping of \<open>print_terminal_display\<close> changes
  nothing: the mark is drawn at the coordinates it was given.
\<close>

lemma print_terminal_display_on_canvas:
  assumes "0 \<le> local_x" "local_x \<le> SCREEN_WIDTH - 1" "0 \<le> global_y" "global_y \<le> SCREEN_HEIGHT - 1"
  shows "print_terminal_display True local_x global_y = Some (global_y, local_x)"
  using assms by (simp add: print_terminal_display_def)

subsection \<open>The message callback\<close>

text \<open>
  Claim C7. A payload on the ball-state topic that does not decode or does not parse
  makes the callback print one error line and return normally; the cached ball state and
  the membership table are as before.
\<close>

theorem malformed_state_payload_discarded:
  assumes "decode topic = Some TOPIC_BALL_POS"
    and "decode msg = None \<or> (\<exists>payload. decode msg = Some payload \<and> loads payload = None)"
  shows "\<exists>e n'. mqtt_callback decode loads now topic msg n = Inr n' \<and>
           n' = n\<lparr>console := console n @ [Error_in_MQTT_callback e]\<rparr> \<and>
           current_ball_state n' = current_ball_state n \<and> active_picos n' = active_picos n"
  using assms by (auto simp: mqtt_callback_def mqtt_callback_try_def)

theorem malformed_state_payload_discarded_witness:
  "\<exists>e n'. mqtt_callback Some (\<lambda>s. if s = ''[1, 2]'' then Some (JArr [JInt 1, JInt 2]) else None)
          7 ''pico/ball_pos'' ''{pos: [1,''
          \<lparr>active_picos = [(JInt 0, 6)], current_ball_state = JObj [(''pos'', JArr [JInt 3, JInt 4])],
            console = []\<rparr> = Inr n' \<and>
        console n' = [Error_in_MQTT_callback e] \<and>
        current_ball_state n' = JObj [(''pos'', JArr [JInt 3, JInt 4])] \<and>
        active_picos n' = [(JInt 0, 6)]"
  using malformed_state_payload_discarded [of Some "''pico/ball_pos''" "''{pos: [1,''"
      "\<lambda>s. if s = ''[1, 2]'' then Some (JArr [JInt 1, JInt 2]) else None" 7
      "\<lparr>active_picos = [(JInt 0, 6)], current_ball_state = JObj [(''pos'', JArr [JInt 3, JInt 4])],
        console = []\<rparr>"]
  by (auto simp: TOPIC_BALL_POS_def)

text \<open>
  Claim C10. A heartbeat whose payload parses but has no \<open>id\<close> entry, or has
  \<open>id\<close> null (also a payload that is no JSON object at all), leaves the membership
  table as it was: no entry is added and no timestamp is renewed.
\<close>

theorem heartbeat_without_id_ignored:
  assumes "decode topic = Some TOPIC_HEARTBEAT"
    and "decode msg = Some payload" and "loads payload = Some data"
    and "\<forall>items. data = JObj items \<longrightarrow> map_of items ''id'' = None \<or> map_of items ''id'' = Some JNull"
  shows "\<exists>n'. mqtt_callback decode loads now topic msg n = Inr n' \<and>
               active_picos n' = active_picos n \<and> current_ball_state n' = current_ball_state n"
proof (cases data)
  case (JObj items)
  with assms(4) have "py_get data ''id'' = Inr JNull"
    by (auto simp: py_get_def)
  with assms(1-3) show ?thesis
    by (simp add: mqtt_callback_def mqtt_callback_try_def)
qed (use assms(1-3) in \<open>simp_all add: mqtt_callback_def mqtt_callback_try_def py_get_def\<close>)

theorem heartbeat_without_id_ignored_witness:
  "\<exists>n'. mqtt_callback Some (\<lambda>s. if s = ''{}'' then Some (JObj []) else None)
          7 ''pico/heartbeat'' ''{}''
          \<lparr>active_picos = [(JInt 0, 6)], current_ball_state = JNull, console = []\<rparr> = Inr n' \<and>
        active_picos n' = [(JInt 0, 6)] \<and> current_ball_state n' = JNull"
  using heartbeat_without_id_ignored [of Some "''pico/heartbeat''" "''{}''" "''{}''"
      "\<lambda>s. if s = ''{}'' then Some (JObj []) else None" "JObj []" 7
      "\<lparr>active_picos = [(JInt 0, 6)], current_ball_state = JNull, console = []\<rparr>"]
  by (simp add: TOPIC_HEARTBEAT_def)

end
